theory Spec2Isabelle
  imports Complex_Main
begin

section \<open>JavaScript values\<close>

text \<open>
  The dashboard is TypeScript running in a browser. The values its handlers look at are
  strings that may be missing (\<open>string | null\<close>, \<open>string | undefined\<close>), modelled as
  \<open>string option\<close>, and the result of \<open>JSON.parse\<close>, modelled as \<open>jsval\<close>.
  A number is kept by its value: \<open>JSON.parse\<close> yields no NaN, and a literal too large for a
  double yields an infinity.
\<close>

datatype jsnum = Finite rat | Infinity bool

datatype jsval =
    JUndefined
  | JNull
  | JBool bool
  | JNum jsnum
  | JStr string
  | JArr "jsval list"
  | JObj "(string \<times> jsval) list"

text \<open>JavaScript's truthiness, the test behind \<open>if (x)\<close>, \<open>!x\<close>, \<open>a && b\<close> and \<open>a || b\<close>.\<close>

fun truthy :: "jsval \<Rightarrow> bool" where
  "truthy JUndefined = False"
| "truthy JNull = False"
| "truthy (JBool b) = b"
| "truthy (JNum n) = (n \<noteq> Finite 0)"
| "truthy (JStr s) = (s \<noteq> [])"
| "truthy (JArr xs) = True"
| "truthy (JObj kvs) = True"

text \<open>\<open>a || b\<close>: the left operand when it is truthy, the right one otherwise.\<close>

definition js_or :: "jsval \<Rightarrow> jsval \<Rightarrow> jsval" where
  "js_or a b = (if truthy a then a else b)"

text \<open>
  The same operator on a string that may be \<open>null\<close> or \<open>undefined\<close>: a missing string
  and the empty string are both falsy.
\<close>

fun truthy_str :: "string option \<Rightarrow> bool" where
  "truthy_str None = False"
| "truthy_str (Some s) = (s \<noteq> [])"

definition or_opt :: "string option \<Rightarrow> string option \<Rightarrow> string option" where
  "or_opt a b = (if truthy_str a then a else b)"

fun or_str :: "string option \<Rightarrow> string \<Rightarrow> string" where
  "or_str None d = d"
| "or_str (Some s) d = (if s = [] then d else s)"

text \<open>
  Reading the property \<open>type\<close> or \<open>message\<close> of a value, \<open>obj.type\<close>: a TypeError
  (\<open>None\<close>) on \<open>null\<close> and \<open>undefined\<close>, the own property of an object, and
  \<open>undefined\<close> everywhere else (no prototype of a parsed JSON value has a property of
  either name).
\<close>

fun getProp :: "jsval \<Rightarrow> string \<Rightarrow> jsval option" where
  "getProp JUndefined k = None"
| "getProp JNull k = None"
| "getProp (JObj kvs) k = Some (case map_of kvs k of None \<Rightarrow> JUndefined | Some v \<Rightarrow> v)"
| "getProp v k = Some JUndefined"

text \<open>\<open>String(x)\<close> for a string that may be undefined, as \<open>Storage.setItem\<close> coerces its value.\<close>

fun toStorageString :: "string option \<Rightarrow> string" where
  "toStorageString None = ''undefined''"
| "toStorageString (Some s) = s"

text \<open>A thrown value: an \<open>Error\<close> with its message, or anything else.\<close>

datatype thrown = ErrorObj string | NonError

section \<open>Browser storage and the trace of a handler\<close>

text \<open>
  \<open>sessionStorage\<close> and \<open>localStorage\<close> are maps from keys to strings. Beside the two
  stores the world keeps, in program order, every action a handler performs on them and
  on the page: the writes, the navigation, the React state setters and the calls that
  load the page's data.
\<close>

type_synonym storage = "string \<rightharpoonup> string"

datatype store = SessionStorage | LocalStorage

datatype callback_status = StatusLoading | StatusSuccess | StatusError

record current_user =
  cu_userId :: "string option"
  cu_userName :: "string option"
  cu_apiKey :: string

datatype event =
    SetItem store string string
  | Clear store
  | RouterPush string
  | RouterPushAfter nat string
  | SetStatus callback_status
  | SetError string
  | SetSuccess bool
  | SetLoading bool
  | SetUseKeycloak bool
  | SetCurrentUser current_user
  | CallFetchMemories
  | CallFetchUsers

record world =
  sessionStorage :: storage
  localStorage :: storage
  trace :: "event list"

definition emit :: "event \<Rightarrow> world \<Rightarrow> world" where
  "emit e w = w\<lparr>trace := trace w @ [e]\<rparr>"

fun getItem :: "store \<Rightarrow> string \<Rightarrow> world \<Rightarrow> string option" where
  "getItem SessionStorage k w = sessionStorage w k"
| "getItem LocalStorage k w = localStorage w k"

fun setItem :: "store \<Rightarrow> string \<Rightarrow> string \<Rightarrow> world \<Rightarrow> world" where
  "setItem SessionStorage k v w =
     emit (SetItem SessionStorage k v) (w\<lparr>sessionStorage := (sessionStorage w)(k \<mapsto> v)\<rparr>)"
| "setItem LocalStorage k v w =
     emit (SetItem LocalStorage k v) (w\<lparr>localStorage := (localStorage w)(k \<mapsto> v)\<rparr>)"

fun clear :: "store \<Rightarrow> world \<Rightarrow> world" where
  "clear SessionStorage w = emit (Clear SessionStorage) (w\<lparr>sessionStorage := Map.empty\<rparr>)"
| "clear LocalStorage w = emit (Clear LocalStorage) (w\<lparr>localStorage := Map.empty\<rparr>)"

text \<open>Statements run one after the other.\<close>

fun seq :: "('s \<Rightarrow> 's) list \<Rightarrow> 's \<Rightarrow> 's" where
  "seq [] s = s"
| "seq (stmt # stmts) s = seq stmts (stmt s)"

section \<open>services/keycloak.ts\<close>

record env =
  NEXT_PUBLIC_KEYCLOAK_URL :: "string option"
  NEXT_PUBLIC_KEYCLOAK_REALM :: "string option"
  NEXT_PUBLIC_KEYCLOAK_CLIENT_ID :: "string option"

record KeycloakConfig =
  url :: string
  realm :: string
  clientId :: string
  redirectUri :: string

text \<open>
  The settings \<open>initialize\<close> hands to \<open>new UserManager\<close> of oidc-client-ts. The library
  keeps its own record of the signed-in user in the \<open>userStore\<close>, which \<open>initialize\<close>
  makes \<open>window.localStorage\<close>.
\<close>

record UserManagerSettings =
  authority :: string
  client_id :: string
  redirect_uri :: string
  post_logout_redirect_uri :: string
  response_type :: string
  scope :: string
  userStore :: store
  automaticSilentRenew :: bool
  silent_redirect_uri :: string

record KeycloakService =
  userManager :: "UserManagerSettings option"
  config :: "KeycloakConfig option"

text \<open>
  The \<open>User\<close> of oidc-client-ts, as far as the dashboard reads it. In a \<open>User\<close> the
  subject is a string. In what the identity provider sends back the subject may be
  missing, so the records take the type of \<open>sub\<close> as a parameter: a \<open>user\<close> has a
  string there, a \<open>signin_response\<close> a string that may be missing.
\<close>

record 's claims =
  sub :: 's
  preferred_username :: "string option"
  name :: "string option"
  email :: "string option"

record 's oidc_user =
  user_profile :: "'s claims"
  access_token :: string
  expired :: bool

type_synonym user = "string oidc_user"

type_synonym signin_response = "string option oidc_user"

text \<open>
  \<open>initialize()\<close>: reads the three environment variables, returns false when one is
  unset or empty, and otherwise builds the configuration and the user manager from
  them and \<open>window.location.origin\<close>.
\<close>

definition initialize :: "env \<Rightarrow> string \<Rightarrow> KeycloakService \<Rightarrow> bool \<times> KeycloakService" where
  "initialize e origin svc =
     (let keycloakUrl = NEXT_PUBLIC_KEYCLOAK_URL e;
          keycloakRealm = NEXT_PUBLIC_KEYCLOAK_REALM e;
          keycloakClientId = NEXT_PUBLIC_KEYCLOAK_CLIENT_ID e
      in if \<not> truthy_str keycloakUrl \<or> \<not> truthy_str keycloakRealm
            \<or> \<not> truthy_str keycloakClientId
         then (False, svc)
         else
           (let cfg = \<lparr>url = the keycloakUrl, realm = the keycloakRealm,
                       clientId = the keycloakClientId,
                       redirectUri = origin @ ''/auth/callback''\<rparr>
            in (True,
                svc\<lparr>config := Some cfg,
                    userManager := Some
                      \<lparr>authority = the keycloakUrl @ ''/realms/'' @ the keycloakRealm,
                       client_id = the keycloakClientId,
                       redirect_uri = redirectUri cfg,
                       post_logout_redirect_uri = origin,
                       response_type = ''code'',
                       scope = ''openid profile email'',
                       userStore = LocalStorage,
                       automaticSilentRenew = True,
                       silent_redirect_uri = origin @ ''/auth/silent-callback''\<rparr>\<rparr>)))"

text \<open>
  Modelled from the spec: the subject check of the OpenID-Connect client library
  (oidc-client-ts), whose code is not among the sources. The spec requires the subject:
  the login fails when \<open>sub\<close> is absent. The library refuses an ID token whose subject is
  missing or empty (its test is \<open>!sub\<close>) and otherwise builds the \<open>User\<close> from the
  response.
\<close>

definition validateSubject :: "signin_response \<Rightarrow> thrown + user" where
  "validateSubject r =
     (case sub (user_profile r) of
        None \<Rightarrow> Inl (ErrorObj ''ID Token is missing a subject claim'')
      | Some s \<Rightarrow>
          if s = [] then Inl (ErrorObj ''ID Token is missing a subject claim'')
          else Inr \<lparr>user_profile =
                      \<lparr>sub = s,
                       preferred_username = preferred_username (user_profile r),
                       name = name (user_profile r),
                       email = email (user_profile r)\<rparr>,
                    access_token = access_token r,
                    expired = expired r\<rparr>)"

text \<open>
  Modelled from the spec: the key under which the library keeps the signed-in user in
  its user store. The spec leaves token storage to a browser-local persistent store
  managed by the OIDC client; the library names the entry after the authority and the
  client id.
\<close>

definition userStoreKey :: "UserManagerSettings \<Rightarrow> string" where
  "userStoreKey um = ''oidc.user:'' @ authority um @ '':'' @ client_id um"

text \<open>
  Modelled from the spec: \<open>signinRedirectCallback\<close> of the library. \<open>response\<close> is the
  outcome of the sign-in at the identity provider: something thrown (the request failed
  or was refused), or the signed-in user as the provider describes it. The library checks
  the subject, stores the user in its user store, access token included, as the text its
  \<open>toStorageString\<close> gives (the parameter \<open>user_toStorageString\<close>), and returns the
  user. Its bookkeeping of the pending sign-in request is not part of the model.
\<close>

definition signinRedirectCallback ::
    "(user \<Rightarrow> string) \<Rightarrow> UserManagerSettings \<Rightarrow> thrown + signin_response option \<Rightarrow> world
      \<Rightarrow> (thrown + user option) \<times> world" where
  "signinRedirectCallback user_toStorageString um response w =
     (case response of
        Inl t \<Rightarrow> (Inl t, w)
      | Inr None \<Rightarrow> (Inr None, w)
      | Inr (Some r) \<Rightarrow>
          (case validateSubject r of
             Inl t \<Rightarrow> (Inl t, w)
           | Inr u \<Rightarrow>
               (Inr (Some u),
                setItem (userStore um) (userStoreKey um) (user_toStorageString u) w)))"

text \<open>
  \<open>handleCallback()\<close>: throws when the service was not initialised, and otherwise
  returns what \<open>signinRedirectCallback\<close> of the library returns or throws.
\<close>

definition KeycloakService_handleCallback ::
    "(user \<Rightarrow> string) \<Rightarrow> KeycloakService \<Rightarrow> thrown + signin_response option \<Rightarrow> world
      \<Rightarrow> (thrown + user option) \<times> world" where
  "KeycloakService_handleCallback user_toStorageString svc response w =
     (case userManager svc of
        None \<Rightarrow> (Inl (ErrorObj ''Keycloak not initialized''), w)
      | Some um \<Rightarrow> signinRedirectCallback user_toStorageString um response w)"

text \<open>
  \<open>getUser()\<close>: null when the service was not initialised, and otherwise what
  \<open>userManager.getUser\<close> of the library returns or throws (\<open>stored\<close>).
\<close>

definition getUser :: "KeycloakService \<Rightarrow> thrown + user option \<Rightarrow> thrown + user option" where
  "getUser svc stored =
     (case userManager svc of
        None \<Rightarrow> Inr None
      | Some um \<Rightarrow> stored)"

definition isAuthenticated :: "KeycloakService \<Rightarrow> thrown + user option \<Rightarrow> thrown + bool" where
  "isAuthenticated svc stored =
     (case getUser svc stored of
        Inl t \<Rightarrow> Inl t
      | Inr None \<Rightarrow> Inr False
      | Inr (Some u) \<Rightarrow> Inr (\<not> expired u))"

text \<open>\<open>getAccessToken()\<close>: \<open>user?.access_token || null\<close>.\<close>

definition getAccessToken ::
    "KeycloakService \<Rightarrow> thrown + user option \<Rightarrow> thrown + string option" where
  "getAccessToken svc stored =
     (case getUser svc stored of
        Inl t \<Rightarrow> Inl t
      | Inr None \<Rightarrow> Inr None
      | Inr (Some u) \<Rightarrow> Inr (if access_token u = [] then None else Some (access_token u)))"

definition getUserId :: "user \<Rightarrow> string" where
  "getUserId u = sub (user_profile u)"

text \<open>\<open>getUserName\<close>: \<open>preferred_username || name || sub\<close>.\<close>

definition getUserName :: "user \<Rightarrow> string" where
  "getUserName u =
     or_str (preferred_username (user_profile u))
       (or_str (name (user_profile u)) (sub (user_profile u)))"

text \<open>\<open>getUserEmail\<close>: \<open>email || ''\<close>.\<close>

definition getUserEmail :: "user \<Rightarrow> string" where
  "getUserEmail u = or_str (email (user_profile u)) []"

section \<open>app/auth/callback/page.tsx\<close>

text \<open>
  \<open>handleCallback\<close> of the callback page. \<open>response\<close> is the outcome of the sign-in
  at the identity provider, which the library's \<open>signinRedirectCallback\<close> turns into a
  user or an error; \<open>stored\<close> is what the library's \<open>getUser\<close> returns or throws when
  \<open>getAccessToken\<close> asks for the token. Everything thrown inside the \<open>try\<close> block lands
  in the one \<open>catch\<close>, which shows the message and sends the visitor back to the login
  page three seconds later.
\<close>

definition AuthCallbackPage_try ::
    "(user \<Rightarrow> string) \<Rightarrow> KeycloakService \<Rightarrow> bool \<Rightarrow> thrown + signin_response option
      \<Rightarrow> thrown + user option \<Rightarrow> world \<Rightarrow> (thrown + (user \<times> string option)) \<times> world" where
  "AuthCallbackPage_try user_toStorageString svc initialized response stored w =
     (if \<not> initialized then (Inl (ErrorObj ''Keycloak not configured''), w)
      else case KeycloakService_handleCallback user_toStorageString svc response w of
             (Inl t, w1) \<Rightarrow> (Inl t, w1)
           | (Inr None, w1) \<Rightarrow> (Inl (ErrorObj ''No user returned from callback''), w1)
           | (Inr (Some u), w1) \<Rightarrow>
               (case getAccessToken svc stored of
                  Inl t \<Rightarrow> (Inl t, w1)
                | Inr accessToken \<Rightarrow> (Inr (u, accessToken), w1)))"

definition AuthCallbackPage_handleCallback ::
    "(user \<Rightarrow> string) \<Rightarrow> env \<Rightarrow> string \<Rightarrow> thrown + signin_response option
      \<Rightarrow> thrown + user option \<Rightarrow> KeycloakService \<Rightarrow> world \<Rightarrow> KeycloakService \<times> world" where
  "AuthCallbackPage_handleCallback user_toStorageString e origin response stored svc0 w =
     (let (initialized, svc) = initialize e origin svc0
      in case AuthCallbackPage_try user_toStorageString svc initialized response stored w of
           (Inr (u, accessToken), w1) \<Rightarrow>
             (let userId = getUserId u;
                  userName = getUserName u;
                  userEmail = getUserEmail u
              in (svc,
                  seq [setItem SessionStorage ''user_id'' userId,
                       setItem SessionStorage ''user_name'' userName,
                       setItem SessionStorage ''user_email'' userEmail,
                       setItem SessionStorage ''access_token'' (or_str accessToken []),
                       setItem SessionStorage ''auth_type'' ''keycloak'',
                       setItem LocalStorage ''user_id'' userId,
                       setItem LocalStorage ''user_name'' userName,
                       setItem LocalStorage ''user_email'' userEmail,
                       setItem LocalStorage ''auth_type'' ''keycloak'',
                       emit (SetStatus StatusSuccess),
                       emit (RouterPushAfter 1500 ''/'')] w1))
         | (Inl err, w1) \<Rightarrow>
             (svc,
              seq [emit (SetError (case err of ErrorObj m \<Rightarrow> m
                                   | NonError \<Rightarrow> ''Authentication failed'')),
                   emit (SetStatus StatusError),
                   emit (RouterPushAfter 3000 ''/login'')] w1))"

section \<open>app/login/page.tsx\<close>

text \<open>
  \<open>checkKeycloakAuth\<close>: when the library holds a user that has not expired, the login
  page copies the identity into \<open>sessionStorage\<close> and goes to the dashboard. Whatever is
  thrown on the way is logged and dropped.
\<close>

definition checkKeycloakAuth :: "KeycloakService \<Rightarrow> thrown + user option \<Rightarrow> world \<Rightarrow> world" where
  "checkKeycloakAuth svc stored w =
     (case isAuthenticated svc stored of
        Inl t \<Rightarrow> w
      | Inr isAuth \<Rightarrow>
          if isAuth then
            (case getUser svc stored of
               Inl t \<Rightarrow> w
             | Inr None \<Rightarrow> w
             | Inr (Some u) \<Rightarrow>
                 (let userId = getUserId u;
                      userName = getUserName u
                  in case getAccessToken svc stored of
                       Inl t \<Rightarrow> w
                     | Inr accessToken \<Rightarrow>
                         seq [setItem SessionStorage ''user_id'' userId,
                              setItem SessionStorage ''user_name'' userName,
                              setItem SessionStorage ''access_token'' (or_str accessToken []),
                              setItem SessionStorage ''auth_type'' ''keycloak'',
                              emit (RouterPush ''/'')] w))
          else w)"

text \<open>
  The effect the login page runs when it mounts; \<open>has_window\<close> is
  \<open>typeof window !== 'undefined'\<close>. The page shows the single sign-on button when
  \<open>useKeycloak\<close> is set and the API-key form otherwise.
\<close>

definition LoginPage_mount ::
    "bool \<Rightarrow> env \<Rightarrow> string \<Rightarrow> thrown + user option \<Rightarrow> KeycloakService \<Rightarrow> world
      \<Rightarrow> KeycloakService \<times> world" where
  "LoginPage_mount has_window e origin stored svc0 w =
     (if has_window then
        (let (keycloakConfigured, svc) = initialize e origin svc0;
             w1 = emit (SetUseKeycloak keycloakConfigured) w
         in (svc, if keycloakConfigured then checkKeycloakAuth svc stored w1 else w1))
      else (svc0, w))"

text \<open>The JSON body of the backend's answer to \<open>POST /api/v1/auth/login\<close>.\<close>

record login_data =
  success :: bool
  user_id :: "string option"
  login_name :: "string option"
  detail :: "string option"

text \<open>
  \<open>handleApiKeyLogin\<close>. \<open>response\<close> is what \<open>fetch\<close> and \<open>response.json()\<close> give:
  something thrown, or \<open>response.ok\<close> with the parsed body.
\<close>

definition handleApiKeyLogin :: "string \<Rightarrow> thrown + (bool \<times> login_data) \<Rightarrow> world \<Rightarrow> world" where
  "handleApiKeyLogin apiKey response w =
     seq [emit (SetError []),
          emit (SetSuccess False),
          emit (SetLoading True),
          (case response of
             Inl t \<Rightarrow> emit (SetError ''Failed to connect to server. Please check your connection.'')
           | Inr (ok, data) \<Rightarrow>
               if ok \<and> success data then
                 seq [setItem SessionStorage ''api_key'' apiKey,
                      setItem SessionStorage ''user_id'' (toStorageString (user_id data)),
                      setItem SessionStorage ''user_name''
                        (toStorageString (or_opt (login_name data) (user_id data))),
                      setItem SessionStorage ''auth_type'' ''api_key'',
                      setItem LocalStorage ''api_key'' apiKey,
                      setItem LocalStorage ''user_id'' (toStorageString (user_id data)),
                      setItem LocalStorage ''user_name''
                        (toStorageString (or_opt (login_name data) (user_id data))),
                      emit (SetSuccess True),
                      emit (SetError []),
                      emit (RouterPushAfter 500 ''/'')]
               else emit (SetError (or_str (detail data) ''Invalid API key''))),
          emit (SetLoading False)] w"

section \<open>The protected pages: the memories page and app/settings/page.tsx\<close>

text \<open>
  \<open>checkAuth\<close> of both pages. \<open>has_window\<close> is \<open>typeof window !== 'undefined'\<close>: on the
  server there is no storage and the function returns at once.
\<close>

definition MemoriesPage_checkAuth :: "bool \<Rightarrow> world \<Rightarrow> world" where
  "MemoriesPage_checkAuth has_window w =
     (if \<not> has_window then w
      else
        (let apiKey = or_opt (getItem SessionStorage ''api_key'' w) (getItem LocalStorage ''api_key'' w);
             userId = or_opt (getItem SessionStorage ''user_id'' w) (getItem LocalStorage ''user_id'' w);
             userName = or_opt (getItem SessionStorage ''user_name'' w) (getItem LocalStorage ''user_name'' w)
         in if \<not> truthy_str apiKey then emit (RouterPush ''/login'') w
            else emit (SetCurrentUser
                   \<lparr>cu_userId = userId, cu_userName = userName,
                    cu_apiKey = take 10 (the apiKey) @ ''...''\<rparr>) w))"

definition SettingsPage_checkAuth :: "bool \<Rightarrow> world \<Rightarrow> world" where
  "SettingsPage_checkAuth has_window w =
     (if \<not> has_window then w
      else
        (let apiKey = or_opt (getItem SessionStorage ''api_key'' w) (getItem LocalStorage ''api_key'' w);
             userId = or_opt (getItem SessionStorage ''user_id'' w) (getItem LocalStorage ''user_id'' w);
             userName = or_opt (getItem SessionStorage ''user_name'' w) (getItem LocalStorage ''user_name'' w)
         in if \<not> truthy_str apiKey then emit (RouterPush ''/login'') w
            else emit (SetCurrentUser
                   \<lparr>cu_userId = userId, cu_userName = userName, cu_apiKey = the apiKey\<rparr>) w))"

text \<open>
  The effects that run \<open>checkAuth\<close>: the memories page calls \<open>fetchMemories\<close> and
  \<open>fetchUsers\<close> right after it, the settings page calls nothing else.
\<close>

definition MemoriesPage_useEffect :: "bool \<Rightarrow> world \<Rightarrow> world" where
  "MemoriesPage_useEffect has_window w =
     seq [MemoriesPage_checkAuth has_window, emit CallFetchMemories, emit CallFetchUsers] w"

definition SettingsPage_useEffect :: "bool \<Rightarrow> world \<Rightarrow> world" where
  "SettingsPage_useEffect has_window w = seq [SettingsPage_checkAuth has_window] w"

text \<open>\<open>handleLogout\<close>, the same function on both pages.\<close>

definition MemoriesPage_handleLogout :: "bool \<Rightarrow> world \<Rightarrow> world" where
  "MemoriesPage_handleLogout has_window w =
     seq [if has_window then seq [clear SessionStorage, clear LocalStorage] else id,
          emit (RouterPush ''/login'')] w"

definition SettingsPage_handleLogout :: "bool \<Rightarrow> world \<Rightarrow> world" where
  "SettingsPage_handleLogout has_window w =
     seq [if has_window then seq [clear SessionStorage, clear LocalStorage] else id,
          emit (RouterPush ''/login'')] w"

section \<open>app/memories/components/CreateMemoryDialog.tsx\<close>

text \<open>
  What the dialog does to the page: the four kinds of toast of the sonner library
  (\<open>toast.success\<close>, \<open>toast.warning\<close>, \<open>toast.error\<close> and the plain \<open>toast\<close>),
  \<open>setOpen\<close> and \<open>fetchMemories\<close>, in the order they are called. Console output is
  left out, and so is the second effect of the component, which shows the hook's
  \<open>error\<close> string in an error toast whenever the hook sets one.
\<close>

datatype ui_effect =
    ToastSuccess jsval
  | ToastWarning jsval
  | ToastError jsval
  | ToastPlain jsval
  | SetOpen bool
  | FetchMemories

text \<open>
  The effect on \<open>notification\<close>, the string the hook \<open>useMemoriesApi\<close> publishes.
  \<open>JSON.parse\<close> belongs to the runtime and is a parameter, \<open>jsonParse\<close>, with \<open>None\<close>
  for the SyntaxError it throws. The \<open>catch\<close> block also receives the TypeError of
  reading \<open>type\<close> from \<open>null\<close>.
\<close>

definition notification_fallback :: "string \<Rightarrow> ui_effect list" where
  "notification_fallback notification =
     [ToastSuccess (JStr notification), SetOpen False, FetchMemories]"

definition notification_switch :: "jsval \<Rightarrow> jsval \<Rightarrow> ui_effect list" where
  "notification_switch ty msg =
     (if ty = JStr ''success'' then [ToastSuccess msg, SetOpen False, FetchMemories]
      else if ty = JStr ''warning'' then [ToastWarning msg]
      else if ty = JStr ''error'' then [ToastError msg]
      else if ty = JStr ''info'' then [ToastPlain msg, SetOpen False, FetchMemories]
      else [ToastSuccess msg, SetOpen False, FetchMemories])"

definition notification_useEffect ::
    "(string \<Rightarrow> jsval option) \<Rightarrow> string option \<Rightarrow> ui_effect list" where
  "notification_useEffect jsonParse notification =
     (case notification of
        None \<Rightarrow> []
      | Some n \<Rightarrow>
          if n = [] then []
          else
            (case jsonParse n of
               None \<Rightarrow> notification_fallback n
             | Some notificationObj \<Rightarrow>
                 (case getProp notificationObj ''type'' of
                    None \<Rightarrow> notification_fallback n
                  | Some ty \<Rightarrow>
                      (case getProp notificationObj ''message'' of
                         None \<Rightarrow> notification_fallback n
                       | Some msg \<Rightarrow> notification_switch ty msg))))"

text \<open>
  What \<open>createMemory\<close> throws, as \<open>handleCreateMemory\<close> reads it: \<open>error.message\<close>
  and \<open>error.response?.data?.detail\<close> (\<open>undefined\<close> when one link of the chain is
  missing).
\<close>

record create_error =
  err_message :: string
  err_detail :: jsval

text \<open>
  The inner \<open>try\<close> block of \<open>handleCreateMemory\<close>: the effects it performed, and
  whether it reached its \<open>return\<close>. \<open>fetch_ok\<close> says that the awaited
  \<open>fetchMemories()\<close> resolved; when it rejects, the empty \<open>catch\<close> swallows the
  rejection and control falls through to the regular error handling.
\<close>

definition handleCreateMemory_try ::
    "(string \<Rightarrow> jsval option) \<Rightarrow> create_error \<Rightarrow> bool \<Rightarrow> ui_effect list \<times> bool" where
  "handleCreateMemory_try jsonParse error fetch_ok =
     (case jsonParse (err_message error) of
        None \<Rightarrow> ([], False)
      | Some notification \<Rightarrow>
          (case getProp notification ''type'' of
             None \<Rightarrow> ([], False)
           | Some ty \<Rightarrow>
               (case getProp notification ''message'' of
                  None \<Rightarrow> ([], False)
                | Some msg \<Rightarrow>
                    if truthy ty \<and> truthy msg then
                      (if ty = JStr ''success'' then
                         ([ToastSuccess msg, SetOpen False, FetchMemories], fetch_ok)
                       else if ty = JStr ''info'' then
                         ([ToastPlain msg, SetOpen False, FetchMemories], fetch_ok)
                       else if ty = JStr ''warning'' then ([ToastWarning msg], True)
                       else ([ToastError msg], True))
                    else ([], False))))"

text \<open>
  \<open>handleCreateMemory\<close>: \<open>outcome\<close> is \<open>None\<close> when \<open>createMemory\<close> resolved
  (the notification effect does the rest) and the thrown error otherwise.
\<close>

definition handleCreateMemory ::
    "(string \<Rightarrow> jsval option) \<Rightarrow> create_error option \<Rightarrow> bool \<Rightarrow> ui_effect list" where
  "handleCreateMemory jsonParse outcome fetch_ok =
     (case outcome of
        None \<Rightarrow> []
      | Some error \<Rightarrow>
          (case handleCreateMemory_try jsonParse error fetch_ok of
             (effects, True) \<Rightarrow> effects
           | (effects, False) \<Rightarrow>
               effects @
               [ToastError
                  (js_or (err_detail error)
                     (js_or (JStr (err_message error)) (JStr ''Failed to create memory'')))]))"

section \<open>Reading a trace; the inputs of the examples\<close>

text \<open>The events a handler added to the trace of the world it started from.\<close>

definition new_events :: "world \<Rightarrow> world \<Rightarrow> event list" where
  "new_events w w' = drop (length (trace w)) (trace w')"

text \<open>
  A browser with empty stores, the service before \<open>initialize\<close>, an environment with
  all three Keycloak variables and one without the realm, the user \<open>alice\<close>, who has a
  name but no preferred username, and three answers of the identity provider: Alice's,
  one without a subject and one with an empty subject. \<open>example_toStorageString\<close>
  stands for the library's serialisation, cut down to the token and the subject.
\<close>

abbreviation fresh_world :: world where
  "fresh_world \<equiv> \<lparr>sessionStorage = Map.empty, localStorage = Map.empty, trace = []\<rparr>"

abbreviation fresh_service :: KeycloakService where
  "fresh_service \<equiv> \<lparr>userManager = None, config = None\<rparr>"

abbreviation sso_env :: env where
  "sso_env \<equiv> \<lparr>NEXT_PUBLIC_KEYCLOAK_URL = Some ''https://sso.example.org'',
               NEXT_PUBLIC_KEYCLOAK_REALM = Some ''memory'',
               NEXT_PUBLIC_KEYCLOAK_CLIENT_ID = Some ''dashboard''\<rparr>"

abbreviation no_realm_env :: env where
  "no_realm_env \<equiv> \<lparr>NEXT_PUBLIC_KEYCLOAK_URL = Some ''https://sso.example.org'',
                    NEXT_PUBLIC_KEYCLOAK_REALM = Some [],
                    NEXT_PUBLIC_KEYCLOAK_CLIENT_ID = Some ''dashboard''\<rparr>"

abbreviation app_origin :: string where
  "app_origin \<equiv> ''https://app.example.org''"

abbreviation alice :: user where
  "alice \<equiv> \<lparr>user_profile = \<lparr>sub = ''abc'', preferred_username = None, name = Some ''Alice'',
                               email = Some ''alice@example.org''\<rparr>,
             access_token = ''tok'', expired = False\<rparr>"

abbreviation alice_response :: signin_response where
  "alice_response \<equiv>
     \<lparr>user_profile = \<lparr>sub = Some ''abc'', preferred_username = None, name = Some ''Alice'',
                       email = Some ''alice@example.org''\<rparr>,
      access_token = ''tok'', expired = False\<rparr>"

abbreviation no_subject_response :: signin_response where
  "no_subject_response \<equiv>
     \<lparr>user_profile = \<lparr>sub = None, preferred_username = Some ''ghost'', name = None,
                       email = None\<rparr>,
      access_token = ''tok'', expired = False\<rparr>"

abbreviation empty_subject_response :: signin_response where
  "empty_subject_response \<equiv>
     \<lparr>user_profile = \<lparr>sub = Some [], preferred_username = Some ''ghost'', name = None,
                       email = None\<rparr>,
      access_token = ''tok'', expired = False\<rparr>"

abbreviation example_toStorageString :: "user \<Rightarrow> string" where
  "example_toStorageString \<equiv>
     (\<lambda>u. ''access_token='' @ access_token u @ '';sub='' @ sub (user_profile u))"


text \<open>
  \<open>JSON.parse\<close> on the strings of the examples: three notifications, as the objects
  they denote, and the two strings \<open>Memory created\<close> and \<open>Network Error\<close>, which are not
  JSON and are rejected.
\<close>

abbreviation example_jsonParse :: "string \<Rightarrow> jsval option" where
  \<open>example_jsonParse \<equiv>
     [''{"type":"warning","message":"Duplicate"}'' \<mapsto>
        JObj [(''type'', JStr ''warning''), (''message'', JStr ''Duplicate'')],
      ''{"type":"success","message":"Saved"}'' \<mapsto>
        JObj [(''type'', JStr ''success''), (''message'', JStr ''Saved'')],
      ''{"type":"error","message":"Too long"}'' \<mapsto>
        JObj [(''type'', JStr ''error''), (''message'', JStr ''Too long'')]]\<close>

section \<open>The authentication mode\<close>

lemma truthy_str_iff: "truthy_str x = (\<exists>s. x = Some s \<and> s \<noteq> [])"
  by (cases x) auto

lemma initialize_configured:
  "fst (initialize e origin svc) =
     (truthy_str (NEXT_PUBLIC_KEYCLOAK_URL e) \<and> truthy_str (NEXT_PUBLIC_KEYCLOAK_REALM e)
       \<and> truthy_str (NEXT_PUBLIC_KEYCLOAK_CLIENT_ID e))"
  by (simp add: initialize_def Let_def)

lemma initialize_userManager:
  "fst (initialize e origin svc) \<Longrightarrow> userManager (snd (initialize e origin svc)) \<noteq> None"
  by (simp add: initialize_def Let_def split: if_splits)

lemma initialize_unconfigured:
  "\<not> fst (initialize e origin svc) \<Longrightarrow> initialize e origin svc = (False, svc)"
  by (simp add: initialize_def Let_def split: if_splits)

lemma sso_env_configured: "fst (initialize sso_env origin svc)"
  by (simp add: initialize_def)

text \<open>
  \<^bold>\<open>C8.\<close> \<open>initialize\<close> answers true exactly when the URL, the realm and the client id
  are all set and non-empty. When it answers false the service is left as it was, and
  the login page, on mount, only clears \<open>useKeycloak\<close>, which selects the API-key form.
\<close>

theorem resolveAuthMode_iff:
  "fst (initialize e origin svc) =
     (\<exists>u r c. NEXT_PUBLIC_KEYCLOAK_URL e = Some u \<and> u \<noteq> []
        \<and> NEXT_PUBLIC_KEYCLOAK_REALM e = Some r \<and> r \<noteq> []
        \<and> NEXT_PUBLIC_KEYCLOAK_CLIENT_ID e = Some c \<and> c \<noteq> [])
   \<and> (\<not> fst (initialize e origin svc) \<longrightarrow>
         snd (initialize e origin svc) = svc
         \<and> LoginPage_mount True e origin stored svc w = (svc, emit (SetUseKeycloak False) w))"
proof -
  have iff: "fst (initialize e origin svc) =
     (\<exists>u r c. NEXT_PUBLIC_KEYCLOAK_URL e = Some u \<and> u \<noteq> []
        \<and> NEXT_PUBLIC_KEYCLOAK_REALM e = Some r \<and> r \<noteq> []
        \<and> NEXT_PUBLIC_KEYCLOAK_CLIENT_ID e = Some c \<and> c \<noteq> [])"
    by (auto simp: initialize_configured truthy_str_iff)
  have fallback: "snd (initialize e origin svc) = svc
      \<and> LoginPage_mount True e origin stored svc w = (svc, emit (SetUseKeycloak False) w)"
    if "\<not> fst (initialize e origin svc)"
    using initialize_unconfigured[OF that] by (simp add: LoginPage_mount_def)
  from iff fallback show ?thesis by blast
qed

theorem resolveAuthMode_iff_witness:
  "fst (initialize sso_env app_origin fresh_service)
   \<and> \<not> fst (initialize no_realm_env app_origin fresh_service)
   \<and> LoginPage_mount True no_realm_env app_origin (Inr None) fresh_service fresh_world =
       (fresh_service, \<lparr>sessionStorage = Map.empty, localStorage = Map.empty,
                        trace = [SetUseKeycloak False]\<rparr>)"
  using resolveAuthMode_iff[where e = sso_env and origin = app_origin and svc = fresh_service]
    resolveAuthMode_iff[where e = no_realm_env and origin = app_origin and svc = fresh_service
      and stored = "Inr None" and w = fresh_world]
  by (simp add: emit_def)

section \<open>The single sign-on callback\<close>


lemma initialize_userStore:
  assumes "fst (initialize e origin svc)" "userManager (snd (initialize e origin svc)) = Some um"
  shows "userStore um = LocalStorage"
  using assms by (auto simp: initialize_def Let_def split: if_splits)

lemma userStoreKey_not_page_key:
  "userStoreKey um \<noteq> ''user_id''" "userStoreKey um \<noteq> ''user_name''"
  "userStoreKey um \<noteq> ''user_email''" "userStoreKey um \<noteq> ''access_token''"
  "userStoreKey um \<noteq> ''auth_type''" "userStoreKey um \<noteq> ''api_key''"
  by (simp_all add: userStoreKey_def)

lemma validateSubject_cases:
  "validateSubject r = Inl (ErrorObj ''ID Token is missing a subject claim'')
     \<and> (sub (user_profile r) = None \<or> sub (user_profile r) = Some [])
   \<or> (\<exists>u. validateSubject r = Inr u \<and> sub (user_profile r) = Some (sub (user_profile u))
          \<and> sub (user_profile u) \<noteq> []
          \<and> preferred_username (user_profile u) = preferred_username (user_profile r)
          \<and> name (user_profile u) = name (user_profile r)
          \<and> email (user_profile u) = email (user_profile r)
          \<and> access_token u = access_token r \<and> expired u = expired r)"
  by (cases "sub (user_profile r)") (simp_all add: validateSubject_def)

lemma validateSubject_accepts:
  assumes "validateSubject r = Inr u"
  shows "sub (user_profile r) = Some (sub (user_profile u))" "sub (user_profile u) \<noteq> []"
    "preferred_username (user_profile u) = preferred_username (user_profile r)"
    "name (user_profile u) = name (user_profile r)"
    "email (user_profile u) = email (user_profile r)"
    "access_token u = access_token r"
  using assms validateSubject_cases[of r] by auto

lemma validateSubject_alice: "validateSubject alice_response = Inr alice"
  by (simp add: validateSubject_def)

text \<open>
  The world after a callback that goes through: Keycloak is configured, with the user
  manager \<open>um\<close>, the library accepts the provider's answer \<open>r\<close> as the user \<open>u\<close>, and its
  user store answers the token lookup with \<open>so\<close>. The library's record of the user comes
  first, then the page's writes.
\<close>

lemma handleCallback_success:
  assumes cfg: "fst (initialize e origin svc)"
    and um: "userManager (snd (initialize e origin svc)) = Some um"
    and v: "validateSubject r = Inr u"
  shows "snd (AuthCallbackPage_handleCallback ts e origin (Inr (Some r)) (Inr so) svc w) =
     w\<lparr>sessionStorage := (sessionStorage w)
          (''user_id'' \<mapsto> getUserId u, ''user_name'' \<mapsto> getUserName u,
           ''user_email'' \<mapsto> getUserEmail u,
           ''access_token'' \<mapsto> (case so of None \<Rightarrow> [] | Some x \<Rightarrow> access_token x),
           ''auth_type'' \<mapsto> ''keycloak''),
        localStorage := (localStorage w)
          (userStoreKey um \<mapsto> ts u,
           ''user_id'' \<mapsto> getUserId u, ''user_name'' \<mapsto> getUserName u,
           ''user_email'' \<mapsto> getUserEmail u, ''auth_type'' \<mapsto> ''keycloak''),
        trace := trace w @
          [SetItem LocalStorage (userStoreKey um) (ts u),
           SetItem SessionStorage ''user_id'' (getUserId u),
           SetItem SessionStorage ''user_name'' (getUserName u),
           SetItem SessionStorage ''user_email'' (getUserEmail u),
           SetItem SessionStorage ''access_token''
             (case so of None \<Rightarrow> [] | Some x \<Rightarrow> access_token x),
           SetItem SessionStorage ''auth_type'' ''keycloak'',
           SetItem LocalStorage ''user_id'' (getUserId u),
           SetItem LocalStorage ''user_name'' (getUserName u),
           SetItem LocalStorage ''user_email'' (getUserEmail u),
           SetItem LocalStorage ''auth_type'' ''keycloak'',
           SetStatus StatusSuccess,
           RouterPushAfter 1500 ''/'']\<rparr>"
proof -
  obtain svc' where i: "initialize e origin svc = (True, svc')"
    using cfg by (cases "initialize e origin svc") auto
  have m: "userManager svc' = Some um"
    using um i by simp
  have st: "userStore um = LocalStorage"
    using initialize_userStore[OF cfg um] .
  have lib: "KeycloakService_handleCallback ts svc' (Inr (Some r)) w =
      (Inr (Some u), setItem LocalStorage (userStoreKey um) (ts u) w)"
    by (simp add: KeycloakService_handleCallback_def signinRedirectCallback_def m v st)
  have t: "AuthCallbackPage_try ts svc' True (Inr (Some r)) (Inr so) w =
      (Inr (u, case so of None \<Rightarrow> None
                | Some x \<Rightarrow> if access_token x = [] then None else Some (access_token x)),
       setItem LocalStorage (userStoreKey um) (ts u) w)"
    by (simp add: AuthCallbackPage_try_def lib getAccessToken_def getUser_def m
        split: option.splits)
  show ?thesis
    by (simp add: AuthCallbackPage_handleCallback_def i t emit_def Let_def split: option.splits)
qed

text \<open>The world after a callback whose answer the library refuses, or that finds no configuration.\<close>

lemma handleCallback_refused:
  assumes "validateSubject r = Inl t"
  shows "snd (AuthCallbackPage_handleCallback ts e origin (Inr (Some r)) stored svc w) =
     w\<lparr>trace := trace w @
          [SetError (if fst (initialize e origin svc)
                     then (case t of ErrorObj m \<Rightarrow> m | NonError \<Rightarrow> ''Authentication failed'')
                     else ''Keycloak not configured''),
           SetStatus StatusError,
           RouterPushAfter 3000 ''/login'']\<rparr>"
proof (cases "fst (initialize e origin svc)")
  case True
  then obtain svc' where i: "initialize e origin svc = (True, svc')"
    by (cases "initialize e origin svc") auto
  obtain um where m: "userManager svc' = Some um"
    using initialize_userManager[OF True] i by auto
  have t: "AuthCallbackPage_try ts svc' True (Inr (Some r)) stored w = (Inl t, w)"
    by (simp add: AuthCallbackPage_try_def KeycloakService_handleCallback_def
        signinRedirectCallback_def m assms)
  show ?thesis
    using True by (simp add: AuthCallbackPage_handleCallback_def i t emit_def)
next
  case False
  then have i: "initialize e origin svc = (False, svc)"
    by (rule initialize_unconfigured)
  show ?thesis
    using False by (simp add: AuthCallbackPage_handleCallback_def i AuthCallbackPage_try_def emit_def)
qed




text \<open>
  \<^bold>\<open>C7.\<close> When the provider's answer has no subject, or an empty one, the callback
  fails and no session comes into being: both stores stay as they were, the page shows
  the error (the library's missing-subject error when Keycloak is configured) and goes
  back to \<open>/login\<close>; the success state is never set.
\<close>

theorem sso_callback_requires_subject:
  assumes "sub (user_profile r) = None \<or> sub (user_profile r) = Some []"
  shows "sessionStorage
           (snd (AuthCallbackPage_handleCallback ts e origin (Inr (Some r)) stored svc w))
           = sessionStorage w
       \<and> localStorage
           (snd (AuthCallbackPage_handleCallback ts e origin (Inr (Some r)) stored svc w))
           = localStorage w
       \<and> new_events w
           (snd (AuthCallbackPage_handleCallback ts e origin (Inr (Some r)) stored svc w)) =
           [SetError (if fst (initialize e origin svc)
                      then ''ID Token is missing a subject claim''
                      else ''Keycloak not configured''),
            SetStatus StatusError,
            RouterPushAfter 3000 ''/login'']"
proof -
  have "validateSubject r = Inl (ErrorObj ''ID Token is missing a subject claim'')"
    using assms by (auto simp: validateSubject_def)
  then show ?thesis
    by (simp add: handleCallback_refused new_events_def)
qed

theorem sso_callback_requires_subject_witness:
  "new_events fresh_world (snd (AuthCallbackPage_handleCallback example_toStorageString sso_env
       app_origin (Inr (Some no_subject_response)) (Inr None) fresh_service fresh_world)) =
     [SetError ''ID Token is missing a subject claim'', SetStatus StatusError,
      RouterPushAfter 3000 ''/login'']
   \<and> sessionStorage (snd (AuthCallbackPage_handleCallback example_toStorageString sso_env
       app_origin (Inr (Some no_subject_response)) (Inr None) fresh_service fresh_world))
       = Map.empty
   \<and> localStorage (snd (AuthCallbackPage_handleCallback example_toStorageString sso_env
       app_origin (Inr (Some no_subject_response)) (Inr None) fresh_service fresh_world))
       = Map.empty
   \<and> new_events fresh_world (snd (AuthCallbackPage_handleCallback example_toStorageString sso_env
       app_origin (Inr (Some empty_subject_response)) (Inr None) fresh_service fresh_world)) =
     [SetError ''ID Token is missing a subject claim'', SetStatus StatusError,
      RouterPushAfter 3000 ''/login'']
   \<and> sessionStorage (snd (AuthCallbackPage_handleCallback example_toStorageString sso_env
       app_origin (Inr (Some empty_subject_response)) (Inr None) fresh_service fresh_world))
       = Map.empty
   \<and> localStorage (snd (AuthCallbackPage_handleCallback example_toStorageString sso_env
       app_origin (Inr (Some empty_subject_response)) (Inr None) fresh_service fresh_world))
       = Map.empty"
  using sso_callback_requires_subject[where r = no_subject_response and e = sso_env
      and origin = app_origin and svc = fresh_service and w = fresh_world and stored = "Inr None"
      and ts = example_toStorageString]
    sso_callback_requires_subject[where r = empty_subject_response and e = sso_env
      and origin = app_origin and svc = fresh_service and w = fresh_world and stored = "Inr None"
      and ts = example_toStorageString]
    sso_env_configured[of app_origin fresh_service]
  by simp

text \<open>
  \<^bold>\<open>C9.\<close> The user name is the preferred username when there is one, else the name
  when there is one, else the subject; a claim counts as present when it is set and not
  the empty string, the test of JavaScript's \<open>||\<close>. A callback that goes through stores
  this name, taken from the claims of the provider's answer, as \<open>user_name\<close> in both
  stores.
\<close>

theorem userName_precedence:
  "(\<forall>s. preferred_username (user_profile u) = Some s \<and> s \<noteq> [] \<longrightarrow> getUserName u = s)
   \<and> (\<forall>n. \<not> truthy_str (preferred_username (user_profile u))
           \<and> name (user_profile u) = Some n \<and> n \<noteq> [] \<longrightarrow> getUserName u = n)
   \<and> (\<not> truthy_str (preferred_username (user_profile u)) \<and> \<not> truthy_str (name (user_profile u))
         \<longrightarrow> getUserName u = sub (user_profile u))
   \<and> (fst (initialize e origin svc) \<and> validateSubject r = Inr u \<longrightarrow>
         preferred_username (user_profile u) = preferred_username (user_profile r)
         \<and> name (user_profile u) = name (user_profile r)
         \<and> sub (user_profile r) = Some (sub (user_profile u))
         \<and> sessionStorage
             (snd (AuthCallbackPage_handleCallback ts e origin (Inr (Some r)) (Inr so) svc w))
             ''user_name'' = Some (getUserName u)
         \<and> localStorage
             (snd (AuthCallbackPage_handleCallback ts e origin (Inr (Some r)) (Inr so) svc w))
             ''user_name'' = Some (getUserName u))"
proof -
  have a: "\<And>s. preferred_username (user_profile u) = Some s \<Longrightarrow> s \<noteq> [] \<Longrightarrow> getUserName u = s"
    by (simp add: getUserName_def)
  have b: "\<And>n. \<not> truthy_str (preferred_username (user_profile u)) \<Longrightarrow>
              name (user_profile u) = Some n \<Longrightarrow> n \<noteq> [] \<Longrightarrow> getUserName u = n"
    by (cases "preferred_username (user_profile u)") (simp_all add: getUserName_def)
  have c: "\<not> truthy_str (preferred_username (user_profile u)) \<Longrightarrow>
           \<not> truthy_str (name (user_profile u)) \<Longrightarrow> getUserName u = sub (user_profile u)"
    by (cases "preferred_username (user_profile u)"; cases "name (user_profile u)")
       (simp_all add: getUserName_def)
  have d: "preferred_username (user_profile u) = preferred_username (user_profile r)
         \<and> name (user_profile u) = name (user_profile r)
         \<and> sub (user_profile r) = Some (sub (user_profile u))
         \<and> sessionStorage
             (snd (AuthCallbackPage_handleCallback ts e origin (Inr (Some r)) (Inr so) svc w))
             ''user_name'' = Some (getUserName u)
         \<and> localStorage
             (snd (AuthCallbackPage_handleCallback ts e origin (Inr (Some r)) (Inr so) svc w))
             ''user_name'' = Some (getUserName u)"
    if cfg: "fst (initialize e origin svc)" and v: "validateSubject r = Inr u"
  proof -
    obtain um where um: "userManager (snd (initialize e origin svc)) = Some um"
      using initialize_userManager[OF cfg] by auto
    show ?thesis
      using validateSubject_accepts[OF v]
      by (simp add: handleCallback_success[OF cfg um v] userStoreKey_not_page_key
          userStoreKey_not_page_key[symmetric])
  qed
  from a b c d show ?thesis by blast
qed

theorem userName_precedence_witness:
  "getUserName alice = ''Alice''
   \<and> getUserName (alice\<lparr>user_profile := (user_profile alice)\<lparr>preferred_username := Some ''al''\<rparr>\<rparr>)
       = ''al''
   \<and> getUserName (alice\<lparr>user_profile := (user_profile alice)\<lparr>name := None\<rparr>\<rparr>) = ''abc''
   \<and> sessionStorage (snd (AuthCallbackPage_handleCallback example_toStorageString sso_env
        app_origin (Inr (Some alice_response)) (Inr (Some alice)) fresh_service fresh_world))
        ''user_name'' = Some ''Alice''
   \<and> localStorage (snd (AuthCallbackPage_handleCallback example_toStorageString sso_env
        app_origin (Inr (Some alice_response)) (Inr (Some alice)) fresh_service fresh_world))
        ''user_name'' = Some ''Alice''"
  using userName_precedence[where u = alice and r = alice_response and e = sso_env
      and so = "Some alice" and w = fresh_world and svc = fresh_service and origin = app_origin
      and ts = example_toStorageString]
    userName_precedence[where
      u = "alice\<lparr>user_profile := (user_profile alice)\<lparr>preferred_username := Some ''al''\<rparr>\<rparr>"]
    userName_precedence[where u = "alice\<lparr>user_profile := (user_profile alice)\<lparr>name := None\<rparr>\<rparr>"]
    sso_env_configured[of app_origin fresh_service] validateSubject_alice
  by simp

section \<open>The login page\<close>

lemma checkKeycloakAuth_authenticated:
  assumes "userManager svc = Some m" "\<not> expired u"
  shows "checkKeycloakAuth svc (Inr (Some u)) w =
     w\<lparr>sessionStorage := (sessionStorage w)
          (''user_id'' \<mapsto> getUserId u, ''user_name'' \<mapsto> getUserName u,
           ''access_token'' \<mapsto> access_token u, ''auth_type'' \<mapsto> ''keycloak''),
        trace := trace w @
          [SetItem SessionStorage ''user_id'' (getUserId u),
           SetItem SessionStorage ''user_name'' (getUserName u),
           SetItem SessionStorage ''access_token'' (access_token u),
           SetItem SessionStorage ''auth_type'' ''keycloak'',
           RouterPush ''/'']\<rparr>"
  using assms
  by (simp add: checkKeycloakAuth_def isAuthenticated_def getUser_def getAccessToken_def
      emit_def Let_def)

lemma checkKeycloakAuth_idle:
  "userManager svc = None \<or> stored = Inr None \<or> (\<exists>t. stored = Inl t)
     \<or> (\<exists>u. stored = Inr (Some u) \<and> expired u)
   \<Longrightarrow> checkKeycloakAuth svc stored w = w"
  by (auto simp: checkKeycloakAuth_def isAuthenticated_def getUser_def
      split: option.splits sum.splits)

lemma checkKeycloakAuth_cases:
  "checkKeycloakAuth svc stored w = w
   \<or> (\<exists>m u. userManager svc = Some m \<and> stored = Inr (Some u) \<and> \<not> expired u)"
proof (cases "userManager svc")
  case None
  then show ?thesis using checkKeycloakAuth_idle by blast
next
  case (Some m)
  show ?thesis
  proof (cases stored)
    case (Inl t)
    then show ?thesis using checkKeycloakAuth_idle by blast
  next
    case (Inr so)
    show ?thesis
    proof (cases so)
      case None
      then show ?thesis using Inr checkKeycloakAuth_idle by blast
    next
      case (Some u)
      then show ?thesis using Inr \<open>userManager svc = Some m\<close> checkKeycloakAuth_idle by blast
    qed
  qed
qed

lemma checkKeycloakAuth_stores:
  "localStorage (checkKeycloakAuth svc stored w) = localStorage w"
  "k \<notin> {''user_id'', ''user_name'', ''access_token'', ''auth_type''} \<Longrightarrow>
     sessionStorage (checkKeycloakAuth svc stored w) k = sessionStorage w k"
  "SetItem s ''user_email'' v \<notin> set (new_events w (checkKeycloakAuth svc stored w))"
proof -
  consider (idle) "checkKeycloakAuth svc stored w = w"
    | (auth) m u where "userManager svc = Some m" "stored = Inr (Some u)" "\<not> expired u"
    using checkKeycloakAuth_cases by blast
  then have "localStorage (checkKeycloakAuth svc stored w) = localStorage w
      \<and> (k \<notin> {''user_id'', ''user_name'', ''access_token'', ''auth_type''} \<longrightarrow>
          sessionStorage (checkKeycloakAuth svc stored w) k = sessionStorage w k)
      \<and> SetItem s ''user_email'' v \<notin> set (new_events w (checkKeycloakAuth svc stored w))"
  proof cases
    case idle
    then show ?thesis by (simp add: new_events_def)
  next
    case auth
    then show ?thesis
      by (simp add: checkKeycloakAuth_authenticated new_events_def)
  qed
  then show "localStorage (checkKeycloakAuth svc stored w) = localStorage w"
    and "k \<notin> {''user_id'', ''user_name'', ''access_token'', ''auth_type''} \<Longrightarrow>
     sessionStorage (checkKeycloakAuth svc stored w) k = sessionStorage w k"
    and "SetItem s ''user_email'' v \<notin> set (new_events w (checkKeycloakAuth svc stored w))"
    by simp_all
qed

lemma LoginPage_mount_localStorage:
  "localStorage (snd (LoginPage_mount has_window e origin stored svc w)) = localStorage w"
proof (cases "initialize e origin svc")
  case (Pair configured svc')
  then show ?thesis
    by (simp add: LoginPage_mount_def checkKeycloakAuth_stores(1) emit_def Let_def)
qed

text \<open>
  \<^bold>\<open>C10.\<close> \<open>checkKeycloakAuth\<close> never changes \<open>localStorage\<close> (nor does the whole
  mount effect of the login page), leaves every key of \<open>sessionStorage\<close> other than
  \<open>user_id\<close>, \<open>user_name\<close>, \<open>access_token\<close> and \<open>auth_type\<close> as it was, and writes
  \<open>user_email\<close> nowhere. When the library holds a user that has not expired, it writes
  exactly those four keys into \<open>sessionStorage\<close> and then goes to the dashboard.
\<close>

theorem checkKeycloakAuth_frame:
  "localStorage (checkKeycloakAuth svc stored w) = localStorage w
   \<and> localStorage (snd (LoginPage_mount has_window e origin stored svc w)) = localStorage w
   \<and> (\<forall>k. k \<notin> {''user_id'', ''user_name'', ''access_token'', ''auth_type''} \<longrightarrow>
          sessionStorage (checkKeycloakAuth svc stored w) k = sessionStorage w k)
   \<and> (\<forall>s v. SetItem s ''user_email'' v \<notin> set (new_events w (checkKeycloakAuth svc stored w)))
   \<and> (\<forall>m u. userManager svc = Some m \<and> stored = Inr (Some u) \<and> \<not> expired u \<longrightarrow>
          new_events w (checkKeycloakAuth svc stored w) =
            [SetItem SessionStorage ''user_id'' (sub (user_profile u)),
             SetItem SessionStorage ''user_name'' (getUserName u),
             SetItem SessionStorage ''access_token'' (access_token u),
             SetItem SessionStorage ''auth_type'' ''keycloak'',
             RouterPush ''/''])"
proof -
  have writes: "\<forall>m u. userManager svc = Some m \<and> stored = Inr (Some u) \<and> \<not> expired u \<longrightarrow>
          new_events w (checkKeycloakAuth svc stored w) =
            [SetItem SessionStorage ''user_id'' (sub (user_profile u)),
             SetItem SessionStorage ''user_name'' (getUserName u),
             SetItem SessionStorage ''access_token'' (access_token u),
             SetItem SessionStorage ''auth_type'' ''keycloak'',
             RouterPush ''/'']"
    by (simp add: checkKeycloakAuth_authenticated new_events_def getUserId_def)
  show ?thesis
    using writes checkKeycloakAuth_stores[where svc = svc and stored = stored and w = w]
      LoginPage_mount_localStorage
    by simp
qed

theorem checkKeycloakAuth_frame_witness:
  "localStorage (checkKeycloakAuth (snd (initialize sso_env app_origin fresh_service))
       (Inr (Some alice)) fresh_world) = Map.empty
   \<and> sessionStorage (checkKeycloakAuth (snd (initialize sso_env app_origin fresh_service))
       (Inr (Some alice)) fresh_world) ''user_email'' = None
   \<and> new_events fresh_world (checkKeycloakAuth (snd (initialize sso_env app_origin fresh_service))
       (Inr (Some alice)) fresh_world) =
       [SetItem SessionStorage ''user_id'' ''abc'',
        SetItem SessionStorage ''user_name'' ''Alice'',
        SetItem SessionStorage ''access_token'' ''tok'',
        SetItem SessionStorage ''auth_type'' ''keycloak'',
        RouterPush ''/'']"
proof -
  have m: "\<exists>m. userManager (snd (initialize sso_env app_origin fresh_service)) = Some m"
    using initialize_userManager[OF sso_env_configured] by blast
  have k: "''user_email'' \<notin> {''user_id'', ''user_name'', ''access_token'', ''auth_type''}"
    by simp
  show ?thesis
    using m k checkKeycloakAuth_frame[where svc = "snd (initialize sso_env app_origin fresh_service)"
        and stored = "Inr (Some alice)" and w = fresh_world]
    by (auto simp: getUserName_def)
qed

text \<open>The world after an API-key login that the backend accepts.\<close>

lemma handleApiKeyLogin_success:
  assumes "success data"
  shows "handleApiKeyLogin apiKey (Inr (True, data)) w =
     w\<lparr>sessionStorage := (sessionStorage w)
          (''api_key'' \<mapsto> apiKey, ''user_id'' \<mapsto> toStorageString (user_id data),
           ''user_name'' \<mapsto> toStorageString (or_opt (login_name data) (user_id data)),
           ''auth_type'' \<mapsto> ''api_key''),
        localStorage := (localStorage w)
          (''api_key'' \<mapsto> apiKey, ''user_id'' \<mapsto> toStorageString (user_id data),
           ''user_name'' \<mapsto> toStorageString (or_opt (login_name data) (user_id data))),
        trace := trace w @
          [SetError [], SetSuccess False, SetLoading True,
           SetItem SessionStorage ''api_key'' apiKey,
           SetItem SessionStorage ''user_id'' (toStorageString (user_id data)),
           SetItem SessionStorage ''user_name''
             (toStorageString (or_opt (login_name data) (user_id data))),
           SetItem SessionStorage ''auth_type'' ''api_key'',
           SetItem LocalStorage ''api_key'' apiKey,
           SetItem LocalStorage ''user_id'' (toStorageString (user_id data)),
           SetItem LocalStorage ''user_name''
             (toStorageString (or_opt (login_name data) (user_id data))),
           SetSuccess True, SetError [], RouterPushAfter 500 ''/'',
           SetLoading False]\<rparr>"
  using assms by (simp add: handleApiKeyLogin_def emit_def)

text \<open>
  \<^bold>\<open>C4.\<close> The two logins do not agree on the durable store. The single sign-on
  callback writes \<open>auth_type\<close> into both stores (see \<open>handleCallback_success\<close>); the
  API-key login writes \<open>auth_type = api_key\<close> into \<open>sessionStorage\<close> only. On a fresh
  browser, after the login with key \<open>key-1\<close> that the backend answers with
  \<open>{success: true, user_id: "u1", name: "Alice"}\<close>, the session store holds the four keys
  \<open>api_key\<close>, \<open>user_id\<close>, \<open>user_name\<close>, \<open>auth_type\<close> and the durable store only the
  first three.
\<close>

theorem apiKeyLogin_durable_lacks_auth_type:
  "dom (sessionStorage (handleApiKeyLogin ''key-1''
       (Inr (True, \<lparr>success = True, user_id = Some ''u1'', login_name = Some ''Alice'',
                    detail = None\<rparr>)) fresh_world))
     = {''api_key'', ''user_id'', ''user_name'', ''auth_type''}
   \<and> dom (localStorage (handleApiKeyLogin ''key-1''
       (Inr (True, \<lparr>success = True, user_id = Some ''u1'', login_name = Some ''Alice'',
                    detail = None\<rparr>)) fresh_world))
     = {''api_key'', ''user_id'', ''user_name''}
   \<and> sessionStorage (handleApiKeyLogin ''key-1''
       (Inr (True, \<lparr>success = True, user_id = Some ''u1'', login_name = Some ''Alice'',
                    detail = None\<rparr>)) fresh_world) ''auth_type'' = Some ''api_key''
   \<and> localStorage (handleApiKeyLogin ''key-1''
       (Inr (True, \<lparr>success = True, user_id = Some ''u1'', login_name = Some ''Alice'',
                    detail = None\<rparr>)) fresh_world) ''auth_type'' = None"
  by (simp add: handleApiKeyLogin_success) auto

section \<open>The protected pages\<close>

lemma checkAuth_present:
  assumes "or_opt (sessionStorage w ''api_key'') (localStorage w ''api_key'') = Some k" "k \<noteq> []"
  shows "MemoriesPage_checkAuth True w =
           emit (SetCurrentUser
             \<lparr>cu_userId = or_opt (sessionStorage w ''user_id'') (localStorage w ''user_id''),
              cu_userName = or_opt (sessionStorage w ''user_name'') (localStorage w ''user_name''),
              cu_apiKey = take 10 k @ ''...''\<rparr>) w"
    and "SettingsPage_checkAuth True w =
           emit (SetCurrentUser
             \<lparr>cu_userId = or_opt (sessionStorage w ''user_id'') (localStorage w ''user_id''),
              cu_userName = or_opt (sessionStorage w ''user_name'') (localStorage w ''user_name''),
              cu_apiKey = k\<rparr>) w"
  using assms by (simp_all add: MemoriesPage_checkAuth_def SettingsPage_checkAuth_def Let_def)

lemma checkAuth_absent:
  assumes "\<not> truthy_str (sessionStorage w ''api_key'')" "\<not> truthy_str (localStorage w ''api_key'')"
  shows "MemoriesPage_checkAuth True w = emit (RouterPush ''/login'') w"
    and "SettingsPage_checkAuth True w = emit (RouterPush ''/login'') w"
  using assms
  by (simp_all add: MemoriesPage_checkAuth_def SettingsPage_checkAuth_def Let_def or_opt_def)

text \<open>
  \<^bold>\<open>X2.\<close> \<open>checkAuth\<close> of both pages takes the API key from \<open>sessionStorage\<close> when it
  holds one, and from \<open>localStorage\<close> when \<open>sessionStorage\<close> holds none (no entry, or the
  empty string, which JavaScript's \<open>||\<close> treats alike). When neither store holds one,
  whatever else the stores contain, \<open>checkAuth\<close> itself goes to \<open>/login\<close> and returns:
  it sets no current user and leaves the stores untouched.
\<close>

theorem checkAuth_session_first:
  "(\<forall>k. sessionStorage w ''api_key'' = Some k \<and> k \<noteq> [] \<longrightarrow>
        MemoriesPage_checkAuth True w =
          emit (SetCurrentUser
            \<lparr>cu_userId = or_opt (sessionStorage w ''user_id'') (localStorage w ''user_id''),
             cu_userName = or_opt (sessionStorage w ''user_name'') (localStorage w ''user_name''),
             cu_apiKey = take 10 k @ ''...''\<rparr>) w
        \<and> SettingsPage_checkAuth True w =
          emit (SetCurrentUser
            \<lparr>cu_userId = or_opt (sessionStorage w ''user_id'') (localStorage w ''user_id''),
             cu_userName = or_opt (sessionStorage w ''user_name'') (localStorage w ''user_name''),
             cu_apiKey = k\<rparr>) w)
   \<and> (\<forall>k. \<not> truthy_str (sessionStorage w ''api_key'')
           \<and> localStorage w ''api_key'' = Some k \<and> k \<noteq> [] \<longrightarrow>
        MemoriesPage_checkAuth True w =
          emit (SetCurrentUser
            \<lparr>cu_userId = or_opt (sessionStorage w ''user_id'') (localStorage w ''user_id''),
             cu_userName = or_opt (sessionStorage w ''user_name'') (localStorage w ''user_name''),
             cu_apiKey = take 10 k @ ''...''\<rparr>) w
        \<and> SettingsPage_checkAuth True w =
          emit (SetCurrentUser
            \<lparr>cu_userId = or_opt (sessionStorage w ''user_id'') (localStorage w ''user_id''),
             cu_userName = or_opt (sessionStorage w ''user_name'') (localStorage w ''user_name''),
             cu_apiKey = k\<rparr>) w)
   \<and> (\<not> truthy_str (sessionStorage w ''api_key'') \<and> \<not> truthy_str (localStorage w ''api_key'')
         \<longrightarrow> MemoriesPage_checkAuth True w = emit (RouterPush ''/login'') w
           \<and> SettingsPage_checkAuth True w = emit (RouterPush ''/login'') w)"
proof -
  have s: "or_opt (sessionStorage w ''api_key'') (localStorage w ''api_key'') = Some k"
    if "sessionStorage w ''api_key'' = Some k" "k \<noteq> []" for k
    using that by (simp add: or_opt_def)
  have l: "or_opt (sessionStorage w ''api_key'') (localStorage w ''api_key'') = Some k"
    if "\<not> truthy_str (sessionStorage w ''api_key'')" "localStorage w ''api_key'' = Some k" for k
    using that by (simp add: or_opt_def)
  show ?thesis
    using checkAuth_present[OF s] checkAuth_present[OF l] checkAuth_absent[of w]
    by blast
qed

theorem checkAuth_session_first_witness:
  "MemoriesPage_checkAuth True
     \<lparr>sessionStorage = [''api_key'' \<mapsto> ''session-key-0001''],
      localStorage = [''api_key'' \<mapsto> ''durable-key-0002''], trace = []\<rparr>
     = \<lparr>sessionStorage = [''api_key'' \<mapsto> ''session-key-0001''],
        localStorage = [''api_key'' \<mapsto> ''durable-key-0002''],
        trace = [SetCurrentUser \<lparr>cu_userId = None, cu_userName = None,
                                  cu_apiKey = ''session-ke...''\<rparr>]\<rparr>
   \<and> SettingsPage_checkAuth True
     \<lparr>sessionStorage = Map.empty,
      localStorage = [''api_key'' \<mapsto> ''durable-key-0002''], trace = []\<rparr>
     = \<lparr>sessionStorage = Map.empty,
        localStorage = [''api_key'' \<mapsto> ''durable-key-0002''],
        trace = [SetCurrentUser \<lparr>cu_userId = None, cu_userName = None,
                                  cu_apiKey = ''durable-key-0002''\<rparr>]\<rparr>
   \<and> MemoriesPage_checkAuth True
     \<lparr>sessionStorage = [''user_id'' \<mapsto> ''abc'', ''user_name'' \<mapsto> ''Alice'',
                         ''access_token'' \<mapsto> ''tok'', ''auth_type'' \<mapsto> ''keycloak''],
      localStorage = [''user_id'' \<mapsto> ''abc'', ''user_name'' \<mapsto> ''Alice'',
                       ''auth_type'' \<mapsto> ''keycloak''], trace = []\<rparr>
     = \<lparr>sessionStorage = [''user_id'' \<mapsto> ''abc'', ''user_name'' \<mapsto> ''Alice'',
                         ''access_token'' \<mapsto> ''tok'', ''auth_type'' \<mapsto> ''keycloak''],
        localStorage = [''user_id'' \<mapsto> ''abc'', ''user_name'' \<mapsto> ''Alice'',
                       ''auth_type'' \<mapsto> ''keycloak''],
        trace = [RouterPush ''/login'']\<rparr>"
  using checkAuth_session_first[where w = "\<lparr>sessionStorage = [''api_key'' \<mapsto> ''session-key-0001''],
      localStorage = [''api_key'' \<mapsto> ''durable-key-0002''], trace = []\<rparr>"]
    checkAuth_session_first[where w = "\<lparr>sessionStorage = Map.empty,
      localStorage = [''api_key'' \<mapsto> ''durable-key-0002''], trace = []\<rparr>"]
    checkAuth_session_first[where w = "\<lparr>sessionStorage = [''user_id'' \<mapsto> ''abc'',
        ''user_name'' \<mapsto> ''Alice'', ''access_token'' \<mapsto> ''tok'', ''auth_type'' \<mapsto> ''keycloak''],
      localStorage = [''user_id'' \<mapsto> ''abc'', ''user_name'' \<mapsto> ''Alice'',
        ''auth_type'' \<mapsto> ''keycloak''], trace = []\<rparr>"]
  by (simp add: emit_def or_opt_def)

lemma handleLogout_clears:
  "MemoriesPage_handleLogout True w =
     w\<lparr>sessionStorage := Map.empty, localStorage := Map.empty,
       trace := trace w @ [Clear SessionStorage, Clear LocalStorage, RouterPush ''/login'']\<rparr>"
  "SettingsPage_handleLogout True w =
     w\<lparr>sessionStorage := Map.empty, localStorage := Map.empty,
       trace := trace w @ [Clear SessionStorage, Clear LocalStorage, RouterPush ''/login'']\<rparr>"
  by (simp_all add: MemoriesPage_handleLogout_def SettingsPage_handleLogout_def emit_def)

text \<open>
  \<^bold>\<open>C6.\<close> \<open>handleLogout\<close> of both pages empties \<open>sessionStorage\<close> and \<open>localStorage\<close>,
  whatever they held, and then goes to \<open>/login\<close>. A \<open>checkAuth\<close> that runs on the
  stores it leaves finds no session: it sets no current user and goes to \<open>/login\<close>.
\<close>

theorem logout_wipes_both_stores:
  "sessionStorage (MemoriesPage_handleLogout True w) = Map.empty
   \<and> localStorage (MemoriesPage_handleLogout True w) = Map.empty
   \<and> new_events w (MemoriesPage_handleLogout True w) =
        [Clear SessionStorage, Clear LocalStorage, RouterPush ''/login'']
   \<and> SettingsPage_handleLogout True w = MemoriesPage_handleLogout True w
   \<and> MemoriesPage_checkAuth True (MemoriesPage_handleLogout True w) =
        emit (RouterPush ''/login'') (MemoriesPage_handleLogout True w)
   \<and> SettingsPage_checkAuth True (MemoriesPage_handleLogout True w) =
        emit (RouterPush ''/login'') (MemoriesPage_handleLogout True w)"
proof -
  have stores: "sessionStorage (MemoriesPage_handleLogout True w) = Map.empty"
    "localStorage (MemoriesPage_handleLogout True w) = Map.empty"
    by (simp_all add: handleLogout_clears)
  have events: "new_events w (MemoriesPage_handleLogout True w) =
      [Clear SessionStorage, Clear LocalStorage, RouterPush ''/login'']"
    by (simp add: handleLogout_clears new_events_def)
  have same: "SettingsPage_handleLogout True w = MemoriesPage_handleLogout True w"
    by (simp add: handleLogout_clears)
  have absent: "\<not> truthy_str (sessionStorage (MemoriesPage_handleLogout True w) ''api_key'')"
    "\<not> truthy_str (localStorage (MemoriesPage_handleLogout True w) ''api_key'')"
    by (simp_all add: stores)
  show ?thesis
    using stores events same checkAuth_absent[OF absent] by simp
qed

text \<open>
  \<^bold>\<open>X1.\<close> \<open>checkAuth\<close> only reads the stores, so a second call right after the first
  finds the same session and does the same thing.
\<close>

lemma checkAuth_reads_only:
  "sessionStorage (MemoriesPage_checkAuth has_window w) = sessionStorage w"
  "localStorage (MemoriesPage_checkAuth has_window w) = localStorage w"
  "sessionStorage (SettingsPage_checkAuth has_window w) = sessionStorage w"
  "localStorage (SettingsPage_checkAuth has_window w) = localStorage w"
  by (simp_all add: MemoriesPage_checkAuth_def SettingsPage_checkAuth_def Let_def emit_def)

lemma checkAuth_events:
  "new_events w (MemoriesPage_checkAuth has_window w) =
     (if \<not> has_window then []
      else if \<not> truthy_str (or_opt (sessionStorage w ''api_key'') (localStorage w ''api_key''))
      then [RouterPush ''/login'']
      else [SetCurrentUser
             \<lparr>cu_userId = or_opt (sessionStorage w ''user_id'') (localStorage w ''user_id''),
              cu_userName = or_opt (sessionStorage w ''user_name'') (localStorage w ''user_name''),
              cu_apiKey = take 10 (the (or_opt (sessionStorage w ''api_key'')
                                      (localStorage w ''api_key''))) @ ''...''\<rparr>])"
  "new_events w (SettingsPage_checkAuth has_window w) =
     (if \<not> has_window then []
      else if \<not> truthy_str (or_opt (sessionStorage w ''api_key'') (localStorage w ''api_key''))
      then [RouterPush ''/login'']
      else [SetCurrentUser
             \<lparr>cu_userId = or_opt (sessionStorage w ''user_id'') (localStorage w ''user_id''),
              cu_userName = or_opt (sessionStorage w ''user_name'') (localStorage w ''user_name''),
              cu_apiKey = the (or_opt (sessionStorage w ''api_key'')
                                (localStorage w ''api_key''))\<rparr>])"
  by (simp_all add: MemoriesPage_checkAuth_def SettingsPage_checkAuth_def Let_def emit_def
      new_events_def)

theorem checkAuth_idempotent:
  "new_events (MemoriesPage_checkAuth has_window w)
       (MemoriesPage_checkAuth has_window (MemoriesPage_checkAuth has_window w))
     = new_events w (MemoriesPage_checkAuth has_window w)
   \<and> new_events (SettingsPage_checkAuth has_window w)
       (SettingsPage_checkAuth has_window (SettingsPage_checkAuth has_window w))
     = new_events w (SettingsPage_checkAuth has_window w)
   \<and> sessionStorage (MemoriesPage_checkAuth has_window w) = sessionStorage w
   \<and> localStorage (MemoriesPage_checkAuth has_window w) = localStorage w
   \<and> sessionStorage (SettingsPage_checkAuth has_window w) = sessionStorage w
   \<and> localStorage (SettingsPage_checkAuth has_window w) = localStorage w"
  by (simp only: checkAuth_events checkAuth_reads_only)

text \<open>
  The early return of \<open>checkAuth\<close> ends \<open>checkAuth\<close>, not the effect that called it:
  with no API key in either store, the effect of the memories page still calls
  \<open>fetchMemories\<close> and \<open>fetchUsers\<close> after the redirect, while the effect of the
  settings page only redirects.
\<close>

lemma useEffect_without_api_key:
  assumes "\<not> truthy_str (sessionStorage w ''api_key'')" "\<not> truthy_str (localStorage w ''api_key'')"
  shows "new_events w (MemoriesPage_useEffect True w) =
           [RouterPush ''/login'', CallFetchMemories, CallFetchUsers]"
    and "new_events w (SettingsPage_useEffect True w) = [RouterPush ''/login'']"
  using assms
  by (simp_all add: MemoriesPage_useEffect_def SettingsPage_useEffect_def checkAuth_absent emit_def
      new_events_def)

text \<open>
  \<^bold>\<open>C5.\<close> Without an API key the memories page does not stop at the redirect. In a
  browser that holds a complete single sign-on session (\<open>user_id\<close>, \<open>user_name\<close>,
  \<open>access_token\<close>, \<open>auth_type = keycloak\<close>) and no \<open>api_key\<close> in either store, the effect
  of the memories page goes to \<open>/login\<close> and then calls \<open>fetchMemories\<close> and
  \<open>fetchUsers\<close>; the effect of the settings page, on the same stores, goes to \<open>/login\<close>
  and does nothing more.
\<close>

theorem memories_page_fetches_after_redirect:
  "new_events
     \<lparr>sessionStorage = [''user_id'' \<mapsto> ''abc'', ''user_name'' \<mapsto> ''Alice'',
                         ''access_token'' \<mapsto> ''tok'', ''auth_type'' \<mapsto> ''keycloak''],
      localStorage = [''user_id'' \<mapsto> ''abc'', ''user_name'' \<mapsto> ''Alice'',
                       ''auth_type'' \<mapsto> ''keycloak''], trace = []\<rparr>
     (MemoriesPage_useEffect True
        \<lparr>sessionStorage = [''user_id'' \<mapsto> ''abc'', ''user_name'' \<mapsto> ''Alice'',
                            ''access_token'' \<mapsto> ''tok'', ''auth_type'' \<mapsto> ''keycloak''],
         localStorage = [''user_id'' \<mapsto> ''abc'', ''user_name'' \<mapsto> ''Alice'',
                          ''auth_type'' \<mapsto> ''keycloak''], trace = []\<rparr>)
     = [RouterPush ''/login'', CallFetchMemories, CallFetchUsers]
   \<and> new_events
     \<lparr>sessionStorage = [''user_id'' \<mapsto> ''abc'', ''user_name'' \<mapsto> ''Alice'',
                         ''access_token'' \<mapsto> ''tok'', ''auth_type'' \<mapsto> ''keycloak''],
      localStorage = [''user_id'' \<mapsto> ''abc'', ''user_name'' \<mapsto> ''Alice'',
                       ''auth_type'' \<mapsto> ''keycloak''], trace = []\<rparr>
     (SettingsPage_useEffect True
        \<lparr>sessionStorage = [''user_id'' \<mapsto> ''abc'', ''user_name'' \<mapsto> ''Alice'',
                            ''access_token'' \<mapsto> ''tok'', ''auth_type'' \<mapsto> ''keycloak''],
         localStorage = [''user_id'' \<mapsto> ''abc'', ''user_name'' \<mapsto> ''Alice'',
                          ''auth_type'' \<mapsto> ''keycloak''], trace = []\<rparr>)
     = [RouterPush ''/login'']"
  by (simp add: useEffect_without_api_key)

section \<open>The create-memory dialog\<close>

lemma notification_useEffect_parsed:
  assumes "raw \<noteq> []" "jsonParse raw = Some obj"
    "getProp obj ''type'' = Some ty" "getProp obj ''message'' = Some msg"
  shows "notification_useEffect jsonParse (Some raw) = notification_switch ty msg"
  using assms by (simp add: notification_useEffect_def)

lemma handleCreateMemory_fallback:
  assumes "handleCreateMemory_try jsonParse e fetch_ok = ([], False)"
  shows "handleCreateMemory jsonParse (Some e) fetch_ok =
     [ToastError (js_or (err_detail e)
        (js_or (JStr (err_message e)) (JStr ''Failed to create memory'')))]"
  using assms by (simp add: handleCreateMemory_def)

text \<open>
  \<^bold>\<open>C1.\<close> Let the response parse to a value whose \<open>type\<close> is the string \<open>ty\<close> and
  whose \<open>message\<close> is truthy, whether it arrives as the hook's notification or as the
  message of the error that \<open>createMemory\<close> throws. For \<open>warning\<close> and \<open>error\<close> the
  dialog shows one toast of that severity and nothing else: it stays open and the list is
  not fetched again. For \<open>success\<close> it shows a success toast, for \<open>info\<close> a plain one,
  then closes and fetches the list. (On the error path the fetch is awaited; if it
  rejects, that path adds the toast of its regular error handling.)
\<close>

theorem notification_table:
  assumes "raw \<noteq> []" and "jsonParse raw = Some obj"
    and "getProp obj ''type'' = Some (JStr ty)"
    and "getProp obj ''message'' = Some msg" and "truthy msg"
    and "err_message e = raw"
  shows
   "(ty = ''warning'' \<longrightarrow>
       notification_useEffect jsonParse (Some raw) = [ToastWarning msg]
       \<and> handleCreateMemory jsonParse (Some e) fetch_ok = [ToastWarning msg])
    \<and> (ty = ''error'' \<longrightarrow>
       notification_useEffect jsonParse (Some raw) = [ToastError msg]
       \<and> handleCreateMemory jsonParse (Some e) fetch_ok = [ToastError msg])
    \<and> (ty = ''success'' \<longrightarrow>
       notification_useEffect jsonParse (Some raw) = [ToastSuccess msg, SetOpen False, FetchMemories]
       \<and> handleCreateMemory jsonParse (Some e) fetch_ok =
           [ToastSuccess msg, SetOpen False, FetchMemories] @
           (if fetch_ok then []
            else [ToastError (js_or (err_detail e)
                    (js_or (JStr (err_message e)) (JStr ''Failed to create memory'')))]))
    \<and> (ty = ''info'' \<longrightarrow>
       notification_useEffect jsonParse (Some raw) = [ToastPlain msg, SetOpen False, FetchMemories]
       \<and> handleCreateMemory jsonParse (Some e) fetch_ok =
           [ToastPlain msg, SetOpen False, FetchMemories] @
           (if fetch_ok then []
            else [ToastError (js_or (err_detail e)
                    (js_or (JStr (err_message e)) (JStr ''Failed to create memory'')))]))"
proof -
  have eff: "notification_useEffect jsonParse (Some raw) = notification_switch (JStr ty) msg"
    using assms by (simp add: notification_useEffect_parsed)
  have p: "jsonParse (err_message e) = Some obj"
    using assms by simp
  have body: "handleCreateMemory_try jsonParse e fetch_ok =
     (if ty = [] then ([], False)
      else if ty = ''success'' then ([ToastSuccess msg, SetOpen False, FetchMemories], fetch_ok)
      else if ty = ''info'' then ([ToastPlain msg, SetOpen False, FetchMemories], fetch_ok)
      else if ty = ''warning'' then ([ToastWarning msg], True)
      else ([ToastError msg], True))"
    using p assms(3-5) by (simp add: handleCreateMemory_try_def)
  have w: "ty = ''warning'' \<Longrightarrow> handleCreateMemory jsonParse (Some e) fetch_ok = [ToastWarning msg]"
    by (simp add: handleCreateMemory_def body)
  have er: "ty = ''error'' \<Longrightarrow> handleCreateMemory jsonParse (Some e) fetch_ok = [ToastError msg]"
    by (simp add: handleCreateMemory_def body)
  have su: "ty = ''success'' \<Longrightarrow> handleCreateMemory jsonParse (Some e) fetch_ok =
           [ToastSuccess msg, SetOpen False, FetchMemories] @
           (if fetch_ok then []
            else [ToastError (js_or (err_detail e)
                    (js_or (JStr (err_message e)) (JStr ''Failed to create memory'')))])"
    by (simp add: handleCreateMemory_def body)
  have inf: "ty = ''info'' \<Longrightarrow> handleCreateMemory jsonParse (Some e) fetch_ok =
           [ToastPlain msg, SetOpen False, FetchMemories] @
           (if fetch_ok then []
            else [ToastError (js_or (err_detail e)
                    (js_or (JStr (err_message e)) (JStr ''Failed to create memory'')))])"
    by (simp add: handleCreateMemory_def body)
  show ?thesis
    using w er su inf by (simp add: eff notification_switch_def)
qed

theorem notification_table_witness:
  \<open>notification_useEffect example_jsonParse (Some ''{"type":"warning","message":"Duplicate"}'')
     = [ToastWarning (JStr ''Duplicate'')]
   \<and> handleCreateMemory example_jsonParse
       (Some \<lparr>err_message = ''{"type":"error","message":"Too long"}'', err_detail = JUndefined\<rparr>) True
     = [ToastError (JStr ''Too long'')]
   \<and> notification_useEffect example_jsonParse (Some ''{"type":"success","message":"Saved"}'')
     = [ToastSuccess (JStr ''Saved''), SetOpen False, FetchMemories]\<close>
  using
    notification_table[where jsonParse = example_jsonParse and ty = "''warning''"
      and raw = \<open>''{"type":"warning","message":"Duplicate"}''\<close>
      and obj = "JObj [(''type'', JStr ''warning''), (''message'', JStr ''Duplicate'')]"
      and msg = "JStr ''Duplicate''"
      and e = \<open>\<lparr>err_message = ''{"type":"warning","message":"Duplicate"}'', err_detail = JUndefined\<rparr>\<close>]
    notification_table[where jsonParse = example_jsonParse and ty = "''error''"
      and raw = \<open>''{"type":"error","message":"Too long"}''\<close>
      and obj = "JObj [(''type'', JStr ''error''), (''message'', JStr ''Too long'')]"
      and msg = "JStr ''Too long''" and fetch_ok = True
      and e = \<open>\<lparr>err_message = ''{"type":"error","message":"Too long"}'', err_detail = JUndefined\<rparr>\<close>]
    notification_table[where jsonParse = example_jsonParse and ty = "''success''"
      and raw = \<open>''{"type":"success","message":"Saved"}''\<close>
      and obj = "JObj [(''type'', JStr ''success''), (''message'', JStr ''Saved'')]"
      and msg = "JStr ''Saved''"
      and e = \<open>\<lparr>err_message = ''{"type":"success","message":"Saved"}'', err_detail = JUndefined\<rparr>\<close>]
  by simp

lemma handleCreateMemory_try_no_notification:
  assumes "jsonParse (err_message e) = None
     \<or> (\<exists>obj. jsonParse (err_message e) = Some obj \<and> getProp obj ''type'' = None)
     \<or> (\<exists>obj ty msg. jsonParse (err_message e) = Some obj \<and> getProp obj ''type'' = Some ty
           \<and> getProp obj ''message'' = Some msg \<and> (\<not> truthy ty \<or> \<not> truthy msg))"
  shows "handleCreateMemory_try jsonParse e fetch_ok = ([], False)"
  using assms by (auto simp: handleCreateMemory_try_def)

lemma notification_useEffect_unreadable:
  assumes "raw \<noteq> []"
    "jsonParse raw = None \<or> (\<exists>obj. jsonParse raw = Some obj \<and> getProp obj ''type'' = None)"
  shows "notification_useEffect jsonParse (Some raw) =
     [ToastSuccess (JStr raw), SetOpen False, FetchMemories]"
  using assms by (auto simp: notification_useEffect_def notification_fallback_def)

text \<open>
  \<^bold>\<open>C2\<close> (amended). What the dialog does with a payload that is no notification depends
  on how it arrives. As the hook's notification, every non-empty string that is not a
  warning, error or info notification ends in a success toast, and the dialog closes and
  fetches the list: the toast shows the string itself when \<open>JSON.parse\<close> rejects it or
  reads it as \<open>null\<close>, and the \<open>message\<close> of the parsed value otherwise. (An empty or
  missing notification does nothing.) As the message of an error thrown by
  \<open>createMemory\<close>, it never ends in success: when \<open>JSON.parse\<close> rejects the message,
  reads it as \<open>null\<close>, or reads a value without a truthy \<open>type\<close> and \<open>message\<close>, the
  regular error handling shows one error toast with the detail of the response, else the
  message, else \<open>Failed to create memory\<close>; when the value has a truthy \<open>message\<close> and a
  truthy \<open>type\<close> other than success, info and warning, the error toast shows that
  message. Either way the dialog neither closes nor fetches.
\<close>

theorem unparseable_payload:
  "(raw \<noteq> [] \<and> (jsonParse raw = None
        \<or> (\<exists>obj. jsonParse raw = Some obj \<and> getProp obj ''type'' = None)) \<longrightarrow>
      notification_useEffect jsonParse (Some raw) =
        [ToastSuccess (JStr raw), SetOpen False, FetchMemories])
   \<and> (\<forall>obj ty msg. raw \<noteq> [] \<and> jsonParse raw = Some obj \<and> getProp obj ''type'' = Some ty
          \<and> getProp obj ''message'' = Some msg
          \<and> ty \<noteq> JStr ''warning'' \<and> ty \<noteq> JStr ''error'' \<and> ty \<noteq> JStr ''info'' \<longrightarrow>
      notification_useEffect jsonParse (Some raw) =
        [ToastSuccess msg, SetOpen False, FetchMemories])
   \<and> notification_useEffect jsonParse (Some []) = []
   \<and> notification_useEffect jsonParse None = []
   \<and> (jsonParse (err_message e) = None
        \<or> (\<exists>obj. jsonParse (err_message e) = Some obj \<and> getProp obj ''type'' = None)
        \<or> (\<exists>obj ty msg. jsonParse (err_message e) = Some obj \<and> getProp obj ''type'' = Some ty
              \<and> getProp obj ''message'' = Some msg \<and> \<not> (truthy ty \<and> truthy msg)) \<longrightarrow>
      handleCreateMemory jsonParse (Some e) fetch_ok =
        [ToastError (js_or (err_detail e)
           (js_or (JStr (err_message e)) (JStr ''Failed to create memory'')))])
   \<and> (\<forall>obj ty msg. jsonParse (err_message e) = Some obj \<and> getProp obj ''type'' = Some ty
          \<and> getProp obj ''message'' = Some msg \<and> truthy ty \<and> truthy msg
          \<and> ty \<noteq> JStr ''success'' \<and> ty \<noteq> JStr ''info'' \<and> ty \<noteq> JStr ''warning'' \<longrightarrow>
      handleCreateMemory jsonParse (Some e) fetch_ok = [ToastError msg])"
proof -
  have a: "notification_useEffect jsonParse (Some raw) =
        [ToastSuccess (JStr raw), SetOpen False, FetchMemories]"
    if "raw \<noteq> []" "jsonParse raw = None
        \<or> (\<exists>obj. jsonParse raw = Some obj \<and> getProp obj ''type'' = None)"
    using that by (rule notification_useEffect_unreadable)
  have d: "notification_useEffect jsonParse (Some raw) = [ToastSuccess msg, SetOpen False, FetchMemories]"
    if "raw \<noteq> []" "jsonParse raw = Some obj" "getProp obj ''type'' = Some ty"
      "getProp obj ''message'' = Some msg"
      "ty \<noteq> JStr ''warning''" "ty \<noteq> JStr ''error''" "ty \<noteq> JStr ''info''" for obj ty msg
    using that by (simp add: notification_useEffect_parsed notification_switch_def)
  have b: "notification_useEffect jsonParse (Some []) = []"
    "notification_useEffect jsonParse None = []"
    by (simp_all add: notification_useEffect_def)
  have c: "handleCreateMemory jsonParse (Some e) fetch_ok =
        [ToastError (js_or (err_detail e)
           (js_or (JStr (err_message e)) (JStr ''Failed to create memory'')))]"
    if "jsonParse (err_message e) = None
        \<or> (\<exists>obj. jsonParse (err_message e) = Some obj \<and> getProp obj ''type'' = None)
        \<or> (\<exists>obj ty msg. jsonParse (err_message e) = Some obj \<and> getProp obj ''type'' = Some ty
              \<and> getProp obj ''message'' = Some msg \<and> \<not> (truthy ty \<and> truthy msg))"
  proof -
    have "handleCreateMemory_try jsonParse e fetch_ok = ([], False)"
      using that by (intro handleCreateMemory_try_no_notification) blast
    then show ?thesis by (rule handleCreateMemory_fallback)
  qed
  have f: "handleCreateMemory jsonParse (Some e) fetch_ok = [ToastError msg]"
    if "jsonParse (err_message e) = Some obj" "getProp obj ''type'' = Some ty"
      "getProp obj ''message'' = Some msg" "truthy ty" "truthy msg"
      "ty \<noteq> JStr ''success''" "ty \<noteq> JStr ''info''" "ty \<noteq> JStr ''warning''" for obj ty msg
    using that by (simp add: handleCreateMemory_def handleCreateMemory_try_def)
  show ?thesis
  proof (intro conjI impI allI)
    fix obj ty msg
    assume "raw \<noteq> [] \<and> jsonParse raw = Some obj \<and> getProp obj ''type'' = Some ty
          \<and> getProp obj ''message'' = Some msg
          \<and> ty \<noteq> JStr ''warning'' \<and> ty \<noteq> JStr ''error'' \<and> ty \<noteq> JStr ''info''"
    then show "notification_useEffect jsonParse (Some raw) =
        [ToastSuccess msg, SetOpen False, FetchMemories]"
      using d by simp
  next
    fix obj ty msg
    assume "jsonParse (err_message e) = Some obj \<and> getProp obj ''type'' = Some ty
          \<and> getProp obj ''message'' = Some msg \<and> truthy ty \<and> truthy msg
          \<and> ty \<noteq> JStr ''success'' \<and> ty \<noteq> JStr ''info'' \<and> ty \<noteq> JStr ''warning''"
    then show "handleCreateMemory jsonParse (Some e) fetch_ok = [ToastError msg]"
      using f by simp
  qed (use a b c in simp_all)
qed

theorem unparseable_payload_witness:
  "notification_useEffect example_jsonParse (Some ''Memory created'') =
     [ToastSuccess (JStr ''Memory created''), SetOpen False, FetchMemories]
   \<and> notification_useEffect (example_jsonParse(''null'' \<mapsto> JNull)) (Some ''null'') =
     [ToastSuccess (JStr ''null''), SetOpen False, FetchMemories]
   \<and> notification_useEffect (example_jsonParse(''42'' \<mapsto> JNum (Finite 42))) (Some ''42'') =
     [ToastSuccess JUndefined, SetOpen False, FetchMemories]
   \<and> handleCreateMemory example_jsonParse
       (Some \<lparr>err_message = ''Request failed with status code 500'',
              err_detail = JStr ''Internal Server Error''\<rparr>) True =
     [ToastError (JStr ''Internal Server Error'')]
   \<and> handleCreateMemory (example_jsonParse(''null'' \<mapsto> JNull))
       (Some \<lparr>err_message = ''null'', err_detail = JUndefined\<rparr>) True =
     [ToastError (JStr ''null'')]"
  using unparseable_payload[where jsonParse = example_jsonParse and raw = "''Memory created''"
      and fetch_ok = True
      and e = "\<lparr>err_message = ''Request failed with status code 500'',
                 err_detail = JStr ''Internal Server Error''\<rparr>"]
    unparseable_payload[where jsonParse = "example_jsonParse(''null'' \<mapsto> JNull)"
      and raw = "''null''" and fetch_ok = True
      and e = "\<lparr>err_message = ''null'', err_detail = JUndefined\<rparr>"]
    unparseable_payload[where jsonParse = "example_jsonParse(''42'' \<mapsto> JNum (Finite 42))"
      and raw = "''42''"]
  by (simp add: js_or_def)

text \<open>
  Against C2 as it is worded: an error whose message is not JSON is answered with an
  error toast, and the dialog neither closes nor fetches the list.
\<close>

theorem unparseable_error_counterexample:
  "handleCreateMemory example_jsonParse
     (Some \<lparr>err_message = ''Network Error'', err_detail = JUndefined\<rparr>) True =
     [ToastError (JStr ''Network Error'')]"
  by (simp add: handleCreateMemory_def handleCreateMemory_try_def js_or_def)

end
